theory Spec2Isabelle
  imports Complex_Main
begin

section \<open>Numbers and missing values\<close>

text \<open>
  JavaScript numbers are modelled as real numbers: the development is about which quantities
  enter which formula, not about rounding. A property that may be absent from an object
  (\<^verbatim>\<open>undefined\<close>) is an \<open>option\<close>.
\<close>

text \<open>\<^verbatim>\<open>x || d\<close> on a numeric property: an absent value and the number 0 are both falsy.\<close>

definition js_or :: "real option \<Rightarrow> real \<Rightarrow> real" where
  "js_or x d = (case x of None \<Rightarrow> d | Some v \<Rightarrow> if v = 0 then d else v)"

text \<open>\<^verbatim>\<open>xs[i]\<close> for an integer index: out of range (also negative) reads \<^verbatim>\<open>undefined\<close>.\<close>

definition js_index :: "'a list \<Rightarrow> int \<Rightarrow> 'a option" where
  "js_index xs i = (if 0 \<le> i \<and> i < int (length xs) then Some (xs ! nat i) else None)"

datatype jsError = TypeError

section \<open>LiveHUD.jsx: the data\<close>

record phrase =
  phrase_start :: real
  phrase_end :: real

text \<open>
  The \<^verbatim>\<open>referenceData\<close> prop. \<^verbatim>\<open>hopLength\<close>, \<^verbatim>\<open>sampleRate\<close>,
  \<^verbatim>\<open>beats\<close>, \<^verbatim>\<open>duration\<close> and \<^verbatim>\<open>phrases\<close> are read behind \<^verbatim>\<open>||\<close> or
  \<^verbatim>\<open>?.\<close>; \<^verbatim>\<open>refPitchHz.length\<close> is read unguarded, so an absent
  \<^verbatim>\<open>refPitchHz\<close> raises.
\<close>

record referenceData =
  hopLength :: "real option"
  sampleRate :: "real option"
  refPitchHz :: "real list option"
  ref_beats :: "real list option"
  duration :: "real option"
  phrases :: "phrase list option"

text \<open>The seven properties that only the full return of the scorer carries.\<close>

record scores =
  pitchScore :: real
  rhythmScore :: real
  energyScore :: real
  totalScore :: real
  onBeat :: bool
  timingErr :: real
  combo :: nat

text \<open>The \<^verbatim>\<open>stats\<close> state: the score properties and the four others.\<close>

record stats = scores +
  pitch :: real
  confidence :: real
  energy :: real
  motionScore :: real

text \<open>
  What \<^verbatim>\<open>calculateScoringMetrics\<close> returns: the early return has \<^verbatim>\<open>pitch\<close>,
  \<^verbatim>\<open>confidence\<close> and \<^verbatim>\<open>energy\<close> only, the full return adds the scores.
\<close>

datatype newStats = Basic real real real | Full real real real scores

definition initial_stats :: stats where
  "initial_stats =
     \<lparr>pitchScore = 0, rhythmScore = 0, energyScore = 0, totalScore = 0, onBeat = False,
      timingErr = 0, combo = 0, pitch = 0, confidence = 0, energy = 0, motionScore = 0\<rparr>"

section \<open>LiveHUD.jsx: calculateScoringMetrics\<close>

text \<open>Lines 155-163. \<open>ref\<close> is \<^verbatim>\<open>referenceData.refPitchHz\<close>.\<close>

definition pitch_scoring :: "real list \<Rightarrow> int \<Rightarrow> real \<Rightarrow> real" where
  "pitch_scoring ref frameIndex f0 =
     (if frameIndex < int (length ref) \<and> f0 > 0 then
        (case js_index ref frameIndex of
           None \<Rightarrow> 0
         | Some refPitch \<Rightarrow>
             if refPitch > 0 then
               (let pitchError = \<bar>f0 - refPitch\<bar> / refPitch
                in max 0 (1 - pitchError * 2))
             else 0)
      else 0)"

text \<open>
  Lines 165-189, returning \<open>(rhythmScore, onBeat, timingErr)\<close>. \<^verbatim>\<open>find\<close> gives the
  first beat after the current time, \<^verbatim>\<open>filter(...).pop()\<close> the last beat not after
  it; \<^verbatim>\<open>nextBeat && prevBeat\<close> needs both present and different from 0.
\<close>

definition truthy :: "real option \<Rightarrow> bool" where
  "truthy x = (case x of None \<Rightarrow> False | Some v \<Rightarrow> v \<noteq> 0)"

definition last_opt :: "'a list \<Rightarrow> 'a option" where
  "last_opt xs = (if xs = [] then None else Some (last xs))"

definition rhythm_scoring :: "real list \<Rightarrow> real \<Rightarrow> real \<times> bool \<times> real" where
  "rhythm_scoring beats currentTime =
     (if length beats > 0 then
        (let nextBeat = find (\<lambda>beat. beat > currentTime) beats;
             prevBeat = last_opt (filter (\<lambda>beat. beat \<le> currentTime) beats)
         in if truthy nextBeat \<and> truthy prevBeat then
              (let beatInterval = the nextBeat - the prevBeat;
                   timeFromPrevBeat = currentTime - the prevBeat;
                   beatPosition = timeFromPrevBeat / beatInterval;
                   beatTolerance = 0.2
               in if beatPosition \<ge> 1 - beatTolerance \<and> beatPosition \<le> beatTolerance then
                    (1.0, True, 0)
                  else
                    (let timingErr = min \<bar>beatPosition - 0.5\<bar> 0.5
                     in (max 0 (1 - timingErr * 2), False, timingErr)))
            else (0, False, 0))
      else (0, False, 0))"

text \<open>Line 192.\<close>

definition energy_scoring :: "real \<Rightarrow> real" where
  "energy_scoring energy' = min (energy' / 0.5) 1.0"

text \<open>Lines 195-200: the four weighted terms, times 100.\<close>

definition total_scoring :: "real \<Rightarrow> real \<Rightarrow> real \<Rightarrow> real \<Rightarrow> real" where
  "total_scoring pitchScore' rhythmScore' energyScore' motion =
     (pitchScore' * 0.6 + rhythmScore' * 0.25 + energyScore' * 0.1 + motion * 0.05) * 100"

text \<open>Line 212: \<^verbatim>\<open>onBeat ? (stats.combo || 0) + 1 : 0\<close>.\<close>

definition next_combo :: "bool \<Rightarrow> nat \<Rightarrow> nat" where
  "next_combo onBeat' prev = (if onBeat' then prev + 1 else 0)"

text \<open>Lines 150-153: the index of the reference pitch frame for the current time.\<close>

definition frame_index :: "referenceData \<Rightarrow> real \<Rightarrow> int" where
  "frame_index rd currentTime =
     (let currentTimeMs = currentTime * 1000;
          hopSize = js_or (hopLength rd) 512;
          sampleRate = js_or (sampleRate rd) 22050
      in \<lfloor>currentTimeMs * sampleRate / hopSize\<rfloor>)"

text \<open>
  The whole function. Its free variables in the source are the prop \<^verbatim>\<open>referenceData\<close>
  and the state values \<^verbatim>\<open>scoringEnabled\<close>, \<^verbatim>\<open>currentTime\<close>, \<^verbatim>\<open>beats\<close> and
  \<^verbatim>\<open>stats\<close> of the render that created the closure; here they are parameters. A primed
  name is the source's parameter of that name (the unprimed one is the record field).
\<close>

definition calculateScoringMetrics ::
  "referenceData option \<Rightarrow> bool \<Rightarrow> real \<Rightarrow> real list \<Rightarrow> stats \<Rightarrow>
     real \<Rightarrow> real \<Rightarrow> real \<Rightarrow> jsError + newStats" where
  "calculateScoringMetrics referenceData scoringEnabled currentTime beats stats f0 energy' confidence' =
     (case referenceData of
        None \<Rightarrow> Inr (Basic f0 confidence' energy')
      | Some rd \<Rightarrow>
          if \<not> scoringEnabled then Inr (Basic f0 confidence' energy')
          else
            (let frameIndex = frame_index rd currentTime
             in case refPitchHz rd of
                  None \<Rightarrow> Inl TypeError
                | Some ref \<Rightarrow>
                    (let pitchScore = pitch_scoring ref frameIndex f0;
                         (rhythmScore, onBeat, timingErr) = rhythm_scoring beats currentTime;
                         energyScore = energy_scoring energy';
                         totalScore = total_scoring pitchScore rhythmScore energyScore
                                        (js_or (Some (motionScore stats)) 0)
                     in Inr (Full f0 confidence' energy'
                          \<lparr>pitchScore = pitchScore * 100,
                           rhythmScore = rhythmScore * 100,
                           energyScore = energyScore * 100,
                           totalScore = totalScore,
                           onBeat = onBeat,
                           timingErr = timingErr * 100,
                           combo = next_combo onBeat (combo stats)\<rparr>))))"

text \<open>A reference with one pitch frame of 440 Hz and beats at 1 s and 2 s, used as a concrete input.\<close>

definition demo_ref :: referenceData where
  "demo_ref = \<lparr>hopLength = Some 512, sampleRate = Some 22050, refPitchHz = Some [440],
     ref_beats = Some [1, 2], duration = None, phrases = None\<rparr>"

section \<open>LiveHUD.jsx: the session\<close>

text \<open>
  One entry of \<^verbatim>\<open>sessionData\<close>: \<^verbatim>\<open>{time, f0, energy, confidence, ...newStats}\<close>.
  The spread repeats \<^verbatim>\<open>energy\<close> and \<^verbatim>\<open>confidence\<close> with the same values, so the
  entry is the time, the detected pitch and what the scorer returned.
\<close>

record frameData =
  frame_time :: real
  frame_f0 :: real
  frame_stats :: newStats

text \<open>
  Reading a property of an entry. The score properties are absent from an entry built from the
  early return; arithmetic on an absent property gives \<^verbatim>\<open>NaN\<close>, modelled as \<open>None\<close>.
\<close>

definition frame_scores :: "frameData \<Rightarrow> scores option" where
  "frame_scores f = (case frame_stats f of Basic _ _ _ \<Rightarrow> None | Full _ _ _ m \<Rightarrow> Some m)"

definition frame_pitch :: "frameData \<Rightarrow> real" where
  "frame_pitch f = (case frame_stats f of Basic p _ _ \<Rightarrow> p | Full p _ _ _ \<Rightarrow> p)"

definition frame_energy :: "frameData \<Rightarrow> real" where
  "frame_energy f = (case frame_stats f of Basic _ _ e \<Rightarrow> e | Full _ _ e _ \<Rightarrow> e)"

definition frame_onBeat :: "frameData \<Rightarrow> bool" where
  "frame_onBeat f = (case frame_scores f of None \<Rightarrow> False | Some m \<Rightarrow> onBeat m)"

text \<open>
  \<^verbatim>\<open>xs.reduce((sum, f) => sum + f.x, 0) / xs.length\<close>: \<open>None\<close> is \<^verbatim>\<open>NaN\<close>, which
  comes from an absent property or from 0 / 0 on the empty list.
\<close>

definition average :: "real option list \<Rightarrow> real option" where
  "average xs =
     (if xs = [] \<or> None \<in> set xs then None
      else Some (sum_list (map the xs) / real (length xs)))"

text \<open>\<^verbatim>\<open>x >= c\<close> is false on \<^verbatim>\<open>NaN\<close>.\<close>

definition js_ge :: "real option \<Rightarrow> real \<Rightarrow> bool" where
  "js_ge x c = (case x of None \<Rightarrow> False | Some v \<Rightarrow> v \<ge> c)"

datatype badge = ComboKing nat | OnBeatBandit | MicMelter | SmoothOperator

text \<open>Lines 308-318: the longest run of on-beat entries, as \<open>(maxCombo, currentCombo)\<close>.\<close>

definition streak_step :: "nat \<times> nat \<Rightarrow> frameData \<Rightarrow> nat \<times> nat" where
  "streak_step acc frame =
     (case acc of (maxCombo, currentCombo) \<Rightarrow>
        if frame_onBeat frame then (max maxCombo (currentCombo + 1), currentCombo + 1)
        else (maxCombo, 0))"

definition calculateBadges :: "frameData list \<Rightarrow> badge list" where
  "calculateBadges data =
     (let maxCombo = fst (foldl streak_step (0, 0) data);
          rhythmAccuracy = average (map (\<lambda>f. map_option rhythmScore (frame_scores f)) data);
          avgEnergy = average (map (\<lambda>f. Some (frame_energy f)) data);
          pitchAccuracy = average (map (\<lambda>f. map_option pitchScore (frame_scores f)) data)
      in (if maxCombo \<ge> 10 then [ComboKing maxCombo] else [])
         @ (if js_ge rhythmAccuracy 80 then [OnBeatBandit] else [])
         @ (if js_ge avgEnergy 0.3 then [MicMelter] else [])
         @ (if js_ge pitchAccuracy 85 then [SmoothOperator] else []))"

record phraseResult =
  pr_phrase :: nat
  pr_start :: real
  pr_end :: real
  pr_pitchScore :: "real option"
  pr_rhythmScore :: "real option"
  pr_energyScore :: "real option"
  pr_totalScore :: "real option"

record totals =
  totals_total :: "real option"
  totals_pitch :: "real option"
  totals_rhythm :: "real option"
  totals_energy :: "real option"
  totals_motion :: real

record results =
  res_totals :: totals
  res_perPhrase :: "phraseResult list"
  res_badges :: "badge list"
  res_pitchTimeline :: "(real \<times> real \<times> real option) list"
  res_energyGraph :: "(real \<times> real) list"
  res_rhythmHeatmap :: "(real \<times> bool option \<times> real option) list"

text \<open>Lines 256-276: one result for every phrase that has entries, in order.\<close>

definition phrase_total :: "real option \<Rightarrow> real option \<Rightarrow> real option \<Rightarrow> real option" where
  "phrase_total p r e =
     (case (p, r, e) of (Some a, Some b, Some c) \<Rightarrow> Some (a * 0.6 + b * 0.25 + c * 0.1)
      | _ \<Rightarrow> None)"

definition phrase_result :: "frameData list \<Rightarrow> nat \<times> phrase \<Rightarrow> phraseResult list" where
  "phrase_result data ip =
     (case ip of (index, ph) \<Rightarrow>
        (let phraseData = filter (\<lambda>frame. frame_time frame \<ge> phrase_start ph
                                          \<and> frame_time frame \<le> phrase_end ph) data
         in if length phraseData > 0 then
              (let avgPitchScore = average (map (\<lambda>f. map_option pitchScore (frame_scores f)) phraseData);
                   avgRhythmScore = average (map (\<lambda>f. map_option rhythmScore (frame_scores f)) phraseData);
                   avgEnergyScore = average (map (\<lambda>f. map_option energyScore (frame_scores f)) phraseData)
               in [\<lparr>pr_phrase = index, pr_start = phrase_start ph, pr_end = phrase_end ph,
                     pr_pitchScore = avgPitchScore, pr_rhythmScore = avgRhythmScore,
                     pr_energyScore = avgEnergyScore,
                     pr_totalScore = phrase_total avgPitchScore avgRhythmScore avgEnergyScore\<rparr>])
            else []))"

text \<open>
  Lines 250-303. \<open>None\<close> is the early return of line 251, where nothing is computed and
  \<^verbatim>\<open>onSessionComplete\<close> is not called; \<open>Some r\<close> is the call \<^verbatim>\<open>onSessionComplete(r)\<close>.
\<close>

definition calculateFinalResults ::
  "referenceData option \<Rightarrow> stats \<Rightarrow> frameData list \<Rightarrow> results option" where
  "calculateFinalResults referenceData stats sessionData =
     (if length sessionData = 0 then None
      else
        (let phraseResults =
               (case referenceData of None \<Rightarrow> []
                | Some rd \<Rightarrow>
                    (case phrases rd of None \<Rightarrow> []
                     | Some phs \<Rightarrow> concat (map (phrase_result sessionData) (enumerate 0 phs))));
             earnedBadges = calculateBadges sessionData;
             tot = \<lparr>totals_total = average (map (\<lambda>f. map_option totalScore (frame_scores f)) sessionData),
                    totals_pitch = average (map (\<lambda>f. map_option pitchScore (frame_scores f)) sessionData),
                    totals_rhythm = average (map (\<lambda>f. map_option rhythmScore (frame_scores f)) sessionData),
                    totals_energy = average (map (\<lambda>f. map_option energyScore (frame_scores f)) sessionData),
                    totals_motion = js_or (Some (motionScore stats)) 0\<rparr>
         in Some \<lparr>res_totals = tot, res_perPhrase = phraseResults, res_badges = earnedBadges,
                  res_pitchTimeline = map (\<lambda>f. (frame_time f, frame_pitch f,
                                                 map_option pitchScore (frame_scores f))) sessionData,
                  res_energyGraph = map (\<lambda>f. (frame_time f, frame_energy f)) sessionData,
                  res_rhythmHeatmap = map (\<lambda>f. (frame_time f, map_option onBeat (frame_scores f),
                                                  map_option timingErr (frame_scores f))) sessionData\<rparr>))"

text \<open>
  The component state. \<open>timerRunning\<close> and \<open>autoStopArmed\<close> stand for the interval and the
  timeout that \<^verbatim>\<open>startSession\<close> creates; \<open>published\<close> collects the arguments of the calls
  of \<^verbatim>\<open>onSessionComplete\<close> and \<open>sent\<close> the payloads sent to the socket. The states
  \<^verbatim>\<open>phraseScores\<close>, \<^verbatim>\<open>badges\<close> and \<^verbatim>\<open>currentBeat\<close> are never read by the
  functions below and are left out.

  A handler reads the state of the render that created it and writes the current state
  through the functional setters. \<open>startStats\<close> and \<open>startSessionData\<close> keep what the render
  of the START click saw, which is what the auto-stop timeout created by that click reads.
\<close>

record hud =
  stats :: stats
  sessionData :: "frameData list"
  currentTime :: real
  beats :: "real list"
  scoringEnabled :: bool
  isRecording :: bool
  sessionStarted :: bool
  connected :: bool
  timerRunning :: bool
  autoStopArmed :: bool
  published :: "results list"
  sent :: "stats list"
  startStats :: stats
  startSessionData :: "frameData list"

definition initial_hud :: hud where
  "initial_hud =
     \<lparr>stats = initial_stats, sessionData = [], currentTime = 0, beats = [],
      scoringEnabled = False, isRecording = False, sessionStarted = False, connected = False,
      timerRunning = False, autoStopArmed = False, published = [], sent = [],
      startStats = initial_stats, startSessionData = []\<rparr>"

text \<open>\<^verbatim>\<open>{...prev, ...newStats}\<close>.\<close>

definition merge_stats :: "stats \<Rightarrow> newStats \<Rightarrow> stats" where
  "merge_stats prev n =
     (case n of
        Basic p c e \<Rightarrow> prev\<lparr>pitch := p, confidence := c, energy := e\<rparr>
      | Full p c e m \<Rightarrow>
          \<lparr>pitchScore = pitchScore m, rhythmScore = rhythmScore m, energyScore = energyScore m,
           totalScore = totalScore m, onBeat = onBeat m, timingErr = timingErr m, combo = combo m,
           pitch = p, confidence = c, energy = e, motionScore = motionScore prev\<rparr>)"

text \<open>Messages of the worklet port; only those of type \<^verbatim>\<open>frame\<close> are handled.\<close>

datatype portMessage = FrameMsg real real real | OtherMsg

text \<open>
  Lines 111-143. \<open>captured\<close> is the state of the render that created the handler: the scorer,
  the frame time, the socket test and the payload read it; \<open>h\<close> is the state at the time of
  the message, which the functional setters of \<^verbatim>\<open>sessionData\<close> and \<^verbatim>\<open>stats\<close> extend.
  The handler reads no session flag. When the scorer raises, the handler ends before any state
  update.
\<close>

definition handleAudioData ::
  "referenceData option \<Rightarrow> hud \<Rightarrow> hud \<Rightarrow> portMessage \<Rightarrow> hud" where
  "handleAudioData referenceData captured h msg =
     (case msg of
        OtherMsg \<Rightarrow> h
      | FrameMsg f0 energy' confidence' \<Rightarrow>
          (case calculateScoringMetrics referenceData (scoringEnabled captured)
                  (currentTime captured) (beats captured) (stats captured)
                  f0 energy' confidence' of
             Inl _ \<Rightarrow> h
           | Inr newStats \<Rightarrow>
               (let frameData = \<lparr>frame_time = currentTime captured, frame_f0 = f0,
                                  frame_stats = newStats\<rparr>
                in h\<lparr>sessionData := sessionData h @ [frameData],
                     sent := (if connected captured
                              then sent h @ [merge_stats (stats captured) newStats] else sent h),
                     stats := merge_stats (stats h) newStats\<rparr>)))"

text \<open>
  Lines 245-248, for the \<^verbatim>\<open>stopSession\<close> of the render that saw \<open>captured\<close>: the final
  results are computed from that render's trace and stats.
\<close>

definition stopSession_of :: "referenceData option \<Rightarrow> hud \<Rightarrow> hud \<Rightarrow> hud" where
  "stopSession_of referenceData captured h =
     (let h1 = h\<lparr>isRecording := False\<rparr>
      in case calculateFinalResults referenceData (stats captured) (sessionData captured) of
           None \<Rightarrow> h1
         | Some r \<Rightarrow> h1\<lparr>published := published h1 @ [r]\<rparr>)"

text \<open>The \<^verbatim>\<open>stopSession\<close> of the render that shows the state it is run on (the STOP click).\<close>

definition stopSession :: "referenceData option \<Rightarrow> hud \<Rightarrow> hud" where
  "stopSession referenceData h = stopSession_of referenceData h h"

text \<open>Lines 220-243, with \<^verbatim>\<open>onStartSession\<close> taken to resolve.\<close>

definition startSession :: "referenceData option \<Rightarrow> hud \<Rightarrow> hud" where
  "startSession referenceData h =
     (if \<not> sessionStarted h then
        h\<lparr>sessionStarted := True, isRecording := True, currentTime := 0, sessionData := [],
          timerRunning := True,
          autoStopArmed := (case referenceData of None \<Rightarrow> False
                            | Some rd \<Rightarrow> truthy (duration rd)),
          startStats := stats h, startSessionData := sessionData h\<rparr>
      else h)"

text \<open>
  Lines 57-60: the payload of a \<^verbatim>\<open>hud\<close> message of the socket, an object with any of the
  properties of \<^verbatim>\<open>stats\<close>, spread over the current stats.
\<close>

record hudPayload =
  p_pitchScore :: "real option"
  p_rhythmScore :: "real option"
  p_energyScore :: "real option"
  p_totalScore :: "real option"
  p_onBeat :: "bool option"
  p_timingErr :: "real option"
  p_combo :: "nat option"
  p_pitch :: "real option"
  p_confidence :: "real option"
  p_energy :: "real option"
  p_motionScore :: "real option"

definition or_prev :: "'a option \<Rightarrow> 'a \<Rightarrow> 'a" where
  "or_prev x prev = (case x of None \<Rightarrow> prev | Some v \<Rightarrow> v)"

definition merge_payload :: "stats \<Rightarrow> hudPayload \<Rightarrow> stats" where
  "merge_payload prev pl =
     \<lparr>pitchScore = or_prev (p_pitchScore pl) (pitchScore prev),
      rhythmScore = or_prev (p_rhythmScore pl) (rhythmScore prev),
      energyScore = or_prev (p_energyScore pl) (energyScore prev),
      totalScore = or_prev (p_totalScore pl) (totalScore prev),
      onBeat = or_prev (p_onBeat pl) (onBeat prev),
      timingErr = or_prev (p_timingErr pl) (timingErr prev),
      combo = or_prev (p_combo pl) (combo prev),
      pitch = or_prev (p_pitch pl) (pitch prev),
      confidence = or_prev (p_confidence pl) (confidence prev),
      energy = or_prev (p_energy pl) (energy prev),
      motionScore = or_prev (p_motionScore pl) (motionScore prev)\<rparr>"

text \<open>
  The events of the component: a message from the worklet, a tick of the 20 ms timer, a click on
  the start/stop button, the auto-stop timeout, the effect that loads the reference, and the
  socket opening, closing and delivering a \<^verbatim>\<open>hud\<close> message.

  The worklet handler is bound once, in the effect that runs at mount (line 103), so it is the
  handler of the first render and reads the initial state. The button runs the handlers of the
  current render. The timeout runs the \<^verbatim>\<open>stopSession\<close> that the START click closed over.
\<close>

datatype event =
    PortMessage portMessage
  | TimerTick
  | Click
  | AutoStop
  | ReferenceEffect
  | SocketOpen
  | SocketClose
  | HudMessage hudPayload

definition step :: "referenceData option \<Rightarrow> hud \<Rightarrow> event \<Rightarrow> hud" where
  "step referenceData h ev =
     (case ev of
        PortMessage m \<Rightarrow> handleAudioData referenceData initial_hud h m
      | TimerTick \<Rightarrow> (if timerRunning h then h\<lparr>currentTime := currentTime h + 0.02\<rparr> else h)
      | Click \<Rightarrow> (if sessionStarted h then stopSession referenceData h
                  else startSession referenceData h)
      | AutoStop \<Rightarrow>
          (if autoStopArmed h
           then (stopSession_of referenceData
                   (h\<lparr>stats := startStats h, sessionData := startSessionData h\<rparr>) h)
                  \<lparr>timerRunning := False, autoStopArmed := False\<rparr>
           else h)
      | ReferenceEffect \<Rightarrow>
          (case referenceData of None \<Rightarrow> h
           | Some rd \<Rightarrow> h\<lparr>beats := (case ref_beats rd of None \<Rightarrow> [] | Some bs \<Rightarrow> bs),
                           scoringEnabled := True\<rparr>)
      | SocketOpen \<Rightarrow> h\<lparr>connected := True\<rparr>
      | SocketClose \<Rightarrow> h\<lparr>connected := False\<rparr>
      | HudMessage pl \<Rightarrow> h\<lparr>stats := merge_payload (stats h) pl\<rparr>)"

definition run :: "referenceData option \<Rightarrow> hud \<Rightarrow> event list \<Rightarrow> hud" where
  "run referenceData h evs = foldl (step referenceData) h evs"


text \<open>The scores of a result, when it is the full return.\<close>

definition scores_of :: "jsError + newStats \<Rightarrow> scores option" where
  "scores_of r = (case r of Inr (Full _ _ _ m) \<Rightarrow> Some m | _ \<Rightarrow> None)"

section \<open>The worklet processor (PitchEnergyProcessor)\<close>

text \<open>
  Line 41: the raw autocorrelation sum of the buffer at a lag. The loop runs over
  \<open>i < n - lag\<close> and is empty when the lag is not below the buffer length.
\<close>

definition acf_sum :: "real list \<Rightarrow> nat \<Rightarrow> real" where
  "acf_sum buffer lag = (\<Sum>i\<leftarrow>[0..<length buffer - lag]. buffer ! i * buffer ! (i + lag))"

text \<open>Lines 40-42: one round of the lag loop on \<open>(best, bestLag)\<close>.\<close>

definition lag_step :: "real list \<Rightarrow> nat \<Rightarrow> real \<times> int \<Rightarrow> real \<times> int" where
  "lag_step buffer lag acc =
     (case acc of (best, bestLag) \<Rightarrow>
        (let sum = acf_sum buffer lag
         in if sum > best then (sum, int lag) else (best, bestLag)))"

text \<open>
  Lines 33-46. \<open>sr\<close> is the sample rate of the audio context. A negative lag (possible only
  for a negative rate) reads outside the buffer and is never selected, so the loop is over the
  natural numbers from \<open>minLag\<close> up to \<open>maxLag\<close>, excluded.
\<close>

definition lag_search :: "real list \<Rightarrow> real \<Rightarrow> real \<times> int" where
  "lag_search buffer sr =
     (let maxLag = \<lfloor>sr / 60\<rfloor>;
          minLag = \<lfloor>sr / 1000\<rfloor>
      in fold (lag_step buffer) [nat minLag..<nat maxLag] (0, -1))"

definition estimatePitch :: "real list \<Rightarrow> real \<Rightarrow> real" where
  "estimatePitch buffer sr =
     (let bestLag = snd (lag_search buffer sr)
      in if bestLag > 0 then sr / real_of_int bestLag else 0)"

text \<open>Lines 28-31.\<close>

definition rootMeanSquare :: "real list \<Rightarrow> real" where
  "rootMeanSquare buffer = sqrt ((\<Sum>x\<leftarrow>buffer. x * x) / real (length buffer))"

record frameMessage =
  msg_f0 :: real
  msg_energy :: real
  msg_confidence :: real

text \<open>Line 21: the message posted for a full buffer.\<close>

definition frame_message :: "real list \<Rightarrow> real \<Rightarrow> frameMessage" where
  "frame_message buffer sr =
     (let f0 = estimatePitch buffer sr;
          energy' = rootMeanSquare buffer
      in \<lparr>msg_f0 = f0, msg_energy = energy', msg_confidence = (if f0 > 0 then 0.8 else 0.2)\<rparr>)"

text \<open>The processor's state: the 2048-sample buffer and the write position.\<close>

record processor =
  buf :: "real list"
  idx :: nat

definition new_processor :: processor where
  "new_processor = \<lparr>buf = replicate 2048 0, idx = 0\<rparr>"

text \<open>
  Lines 16-24: the loop over the samples of the first channel, returning the messages posted
  and the state left behind.
\<close>

fun process_channel :: "real \<Rightarrow> real list \<Rightarrow> processor \<Rightarrow> frameMessage list \<times> processor" where
  "process_channel sr [] p = ([], p)"
| "process_channel sr (x # ch) p =
     (let b = (buf p)[idx p := x];
          i = idx p + 1
      in if i \<ge> length b then
           (case process_channel sr ch \<lparr>buf = b, idx = 0\<rparr> of
              (msgs, p') \<Rightarrow> (frame_message b sr # msgs, p'))
         else process_channel sr ch \<lparr>buf = b, idx = i\<rparr>)"

text \<open>Lines 12-26: \<^verbatim>\<open>inputs[0]\<close> absent or empty ends the call at once.\<close>

definition process :: "real \<Rightarrow> real list list list \<Rightarrow> processor \<Rightarrow> frameMessage list \<times> processor" where
  "process sr inputs p =
     (case inputs of
        [] \<Rightarrow> ([], p)
      | input # _ \<Rightarrow>
          (case input of
             [] \<Rightarrow> ([], p)
           | ch # _ \<Rightarrow> process_channel sr ch p))"

text \<open>
  The normalised autocorrelation of the design: the sum at a lag divided by the sum at lag 0
  (the energy of the buffer).
\<close>

definition normalized_acf :: "real list \<Rightarrow> nat \<Rightarrow> real" where
  "normalized_acf buffer lag = acf_sum buffer lag / acf_sum buffer 0"

section \<open>The echo canceller\<close>

text \<open>
  Modelled from the spec: the NLMS echo canceller, whose code is not among the sources (only
  the HUD and the demo worklet are). Section 4.4: an adaptive FIR filter of fixed length; at
  each sample the prediction is the dot product of the weights and the most recent reference
  samples, the error is the microphone sample minus the prediction, the voice estimate is the
  error, and each weight is updated by
  \<^verbatim>\<open>step_size * error * reference_sample / (power + epsilon)\<close>, where the power is the
  energy of the reference window. \<open>None\<close> is a division by zero. The state is the filter
  weights and the most recent reference samples, newest first.
\<close>

record canceller =
  weights :: "real list"
  history :: "real list"

text \<open>Modelled from the spec: the dot product of the weights and the reference window.\<close>

definition dot :: "real list \<Rightarrow> real list \<Rightarrow> real" where
  "dot ws xs = (\<Sum>(w, x)\<leftarrow>zip ws xs. w * x)"

text \<open>
  Modelled from the spec: one sample of section 4.4, from a (reference, microphone) pair to the
  voice estimate and the updated filter. The window is the new reference sample followed by the
  history, cut to the filter length.
\<close>

definition nlms_step ::
  "real \<Rightarrow> real \<Rightarrow> canceller \<Rightarrow> real \<times> real \<Rightarrow> (real \<times> canceller) option" where
  "nlms_step step_size epsilon c s =
     (case s of (reference_sample, mic_sample) \<Rightarrow>
        (let window = take (length (weights c)) (reference_sample # history c);
             prediction = dot (weights c) window;
             error = mic_sample - prediction;
             power = dot window window
         in if power + epsilon = 0 then None
            else Some (error,
                   \<lparr>weights = map (\<lambda>(w, x). w + step_size * error * x / (power + epsilon))
                                  (zip (weights c) window),
                    history = window\<rparr>)))"

text \<open>
  Modelled from the spec: the canceller run over a sequence of (reference, microphone) sample
  pairs, giving the voice estimates and the final filter.
\<close>

fun nlms_run ::
  "real \<Rightarrow> real \<Rightarrow> canceller \<Rightarrow> (real \<times> real) list \<Rightarrow> (real list \<times> canceller) option" where
  "nlms_run step_size epsilon c [] = Some ([], c)"
| "nlms_run step_size epsilon c (s # ss) =
     (case nlms_step step_size epsilon c s of
        None \<Rightarrow> None
      | Some (out, c') \<Rightarrow>
          (case nlms_run step_size epsilon c' ss of
             None \<Rightarrow> None
           | Some (outs, c'') \<Rightarrow> Some (out # outs, c'')))"

text \<open>Modelled from the spec: the filter at session start, \<open>L\<close> zero weights and a zero history.\<close>

definition reset_canceller :: "nat \<Rightarrow> canceller" where
  "reset_canceller L = \<lparr>weights = replicate L 0, history = replicate L 0\<rparr>"

section \<open>SongUpload.jsx\<close>

record jsFile =
  file_type :: string
  file_size :: nat

record uploadState =
  isUploading :: bool
  uploadProgress :: nat

text \<open>What the component does to the outside and to its state, in order.\<close>

datatype effect =
    Alert string
  | SetIsUploading bool
  | SetUploadProgress nat
  | Fetch jsFile
  | OnSongUploaded string string
  | ConsoleError

text \<open>How the request ends: it fails, or a response arrives (ok or not, with the JSON body).\<close>

datatype fetchOutcome = NetworkFailure | Response bool string string

definition allowedTypes :: "string list" where
  "allowedTypes = [''audio/mpeg'', ''audio/wav'', ''audio/mp3'', ''audio/x-wav'']"

text \<open>Lines 28-59.\<close>

definition uploadFile :: "fetchOutcome \<Rightarrow> jsFile \<Rightarrow> effect list" where
  "uploadFile outcome f =
     [SetIsUploading True, SetUploadProgress 0, Fetch f]
     @ (case outcome of
          Response True track_id filename \<Rightarrow> [OnSongUploaded track_id filename]
        | _ \<Rightarrow> [ConsoleError, Alert ''Upload failed. Please try again.''])
     @ [SetIsUploading False, SetUploadProgress 0]"

text \<open>Lines 9-26. \<open>None\<close> is a missing file.\<close>

definition handleFileSelect :: "fetchOutcome \<Rightarrow> jsFile option \<Rightarrow> effect list" where
  "handleFileSelect outcome selected =
     (case selected of
        None \<Rightarrow> []
      | Some f \<Rightarrow>
          if file_type f \<notin> set allowedTypes then [Alert ''Please select an MP3 or WAV file.'']
          else if file_size f > 50 * 1024 * 1024 then
            [Alert ''File too large. Please select a file under 50MB.'']
          else uploadFile outcome f)"

text \<open>The state after a list of effects.\<close>

fun apply_effect :: "uploadState \<Rightarrow> effect \<Rightarrow> uploadState" where
  "apply_effect s (SetIsUploading b) = s\<lparr>isUploading := b\<rparr>"
| "apply_effect s (SetUploadProgress n) = s\<lparr>uploadProgress := n\<rparr>"
| "apply_effect s _ = s"

definition is_state_update :: "effect \<Rightarrow> bool" where
  "is_state_update e = (case e of SetIsUploading _ \<Rightarrow> True | SetUploadProgress _ \<Rightarrow> True | _ \<Rightarrow> False)"

definition is_request :: "effect \<Rightarrow> bool" where
  "is_request e = (case e of Fetch _ \<Rightarrow> True | _ \<Rightarrow> False)"

section \<open>The pitch curve of the design\<close>

text \<open>
  The cents error as the design document words it, \<^verbatim>\<open>1200 * log2(detected_f0 / reference_f0)\<close>,
  and its octave rule, \<^verbatim>\<open>|cents - 1200 k| <= 50\<close> for \<open>k\<close> = 1 or -1. They are not part of
  the code; the scorer is compared with them.
\<close>

definition spec_cents :: "real \<Rightarrow> real \<Rightarrow> real" where
  "spec_cents detected_f0 reference_f0 = 1200 * log 2 (detected_f0 / reference_f0)"

definition spec_octave_forgiven :: "real \<Rightarrow> bool" where
  "spec_octave_forgiven cents = (\<bar>cents - 1200\<bar> \<le> 50 \<or> \<bar>cents + 1200\<bar> \<le> 50)"

section \<open>Concrete inputs\<close>

text \<open>A reference that holds no pitch frame, no beat and no phrase.\<close>

definition empty_ref :: referenceData where
  "empty_ref = \<lparr>hopLength = None, sampleRate = None, refPitchHz = Some [],
     ref_beats = None, duration = None, phrases = None\<rparr>"




text \<open>A 32-sample buffer with a unit pulse every 10 samples.\<close>

definition pulse_buffer :: "real list" where
  "pulse_buffer = [1, 0, 0, 0, 0, 0, 0, 0, 0, 0, 1, 0, 0, 0, 0, 0, 0, 0, 0, 0,
                   1, 0, 0, 0, 0, 0, 0, 0, 0, 0, 1, 0]"





section \<open>Properties of the scorer\<close>

lemmas scorer_defs = calculateScoringMetrics_def demo_ref_def initial_stats_def js_or_def
  frame_index_def pitch_scoring_def rhythm_scoring_def energy_scoring_def total_scoring_def
  next_combo_def truthy_def last_opt_def js_index_def scores_of_def Let_def

lemma js_or_motion: "js_or (Some m) 0 = m"
  by (simp add: js_or_def)

text \<open>The on-beat test asks for a beat position that is at least 0.8 and at most 0.2.\<close>

lemma rhythm_scoring_onBeat: "fst (snd (rhythm_scoring bs t)) = False"
  by (auto simp: rhythm_scoring_def Let_def)

text \<open>The full return spelled out: every field in terms of the four partial scorings.\<close>

lemma full_fields:
  assumes "calculateScoringMetrics rd en t bs st f0 e c = Inr (Full p c' e' m)"
  shows "\<exists>r ref. rd = Some r \<and> en \<and> refPitchHz r = Some ref \<and> p = f0 \<and> c' = c \<and> e' = e \<and>
    m = \<lparr>pitchScore = pitch_scoring ref (frame_index r t) f0 * 100,
           rhythmScore = fst (rhythm_scoring bs t) * 100,
           energyScore = energy_scoring e * 100,
           totalScore = total_scoring (pitch_scoring ref (frame_index r t) f0)
               (fst (rhythm_scoring bs t)) (energy_scoring e) (motionScore st),
           onBeat = fst (snd (rhythm_scoring bs t)),
           timingErr = snd (snd (rhythm_scoring bs t)) * 100,
           combo = next_combo (fst (snd (rhythm_scoring bs t))) (combo st)\<rparr>"
  using assms
  by (auto simp: calculateScoringMetrics_def Let_def js_or_motion
      split: option.splits if_splits prod.splits)

text \<open>Four frames against the demo reference, evaluated.\<close>

lemma demo_frame_mid:
  "calculateScoringMetrics (Some demo_ref) True 1.5 [1, 2] initial_stats 0 0.5 0.8 =
   Inr (Full 0 0.8 0.5 \<lparr>pitchScore = 0, rhythmScore = 100, energyScore = 100, totalScore = 35,
     onBeat = False, timingErr = 0, combo = 0\<rparr>)"
  by (simp add: scorer_defs)

lemma demo_frame_late:
  "calculateScoringMetrics (Some demo_ref) True 1.9 [1, 2] initial_stats 0 0.5 0.8 =
   Inr (Full 0 0.8 0.5 \<lparr>pitchScore = 0, rhythmScore = 20, energyScore = 100, totalScore = 15,
     onBeat = False, timingErr = 40, combo = 0\<rparr>)"
  by (simp add: scorer_defs)

lemma demo_frame_unison:
  "calculateScoringMetrics (Some demo_ref) True 0 [1, 2] initial_stats 440 0.5 0.8 =
   Inr (Full 440 0.8 0.5 \<lparr>pitchScore = 100, rhythmScore = 0, energyScore = 100, totalScore = 70,
     onBeat = False, timingErr = 0, combo = 0\<rparr>)"
  by (simp add: scorer_defs)

lemma demo_frame_shout:
  "calculateScoringMetrics (Some demo_ref) True 0 [1, 2] initial_stats 440 50 0.8 =
   Inr (Full 440 0.8 50 \<lparr>pitchScore = 100, rhythmScore = 0, energyScore = 100, totalScore = 70,
     onBeat = False, timingErr = 0, combo = 0\<rparr>)"
  by (simp add: scorer_defs)

lemma pitch_scoring_formula:
  assumes "js_index ref i = Some r" "0 < f0" "0 < r"
  shows "pitch_scoring ref i f0 = max 0 (1 - \<bar>f0 - r\<bar> / r * 2)"
  using assms by (auto simp: pitch_scoring_def js_index_def Let_def split: if_splits)

subsection \<open>The combined score\<close>

text \<open>
  Claim C1, as amended. For every frame that gets the full return, the combined score is a
  weighted sum of four terms, not two: 60% pitch, 25% rhythm, 10% energy and 5% motion, times
  100. The returned pitch, rhythm and energy scores are on the scale 0 to 100, hence the
  divisions.
\<close>

theorem C1_total_is_four_term_sum:
  assumes "calculateScoringMetrics rd en t bs st f0 e c = Inr (Full p c' e' m)"
  shows "totalScore m =
           (pitchScore m / 100 * 0.6 + rhythmScore m / 100 * 0.25 + energyScore m / 100 * 0.1
            + motionScore st * 0.05) * 100"
  using full_fields [OF assms] by (auto simp: total_scoring_def)

theorem C1_total_is_four_term_sum_witness:
  "totalScore \<lparr>pitchScore = 0, rhythmScore = 100, energyScore = 100, totalScore = 35,
     onBeat = False, timingErr = 0, combo = 0\<rparr> =
     (0 / 100 * 0.6 + 100 / 100 * 0.25 + 100 / 100 * 0.1 + motionScore initial_stats * 0.05) * 100"
  using C1_total_is_four_term_sum [OF demo_frame_mid] by simp

text \<open>
  The claim as written fails on a frame sung exactly on pitch at the capped energy, before the
  first beat: pitch and energy scores are both 100, the combined score is 70, and 70% of the one
  plus 30% of the other would be 100.
\<close>

theorem C1_weights_counterexample:
  "map_option totalScore (scores_of
     (calculateScoringMetrics (Some demo_ref) True 0 [1, 2] initial_stats 440 0.5 0.8)) = Some 70
   \<and> map_option pitchScore (scores_of
     (calculateScoringMetrics (Some demo_ref) True 0 [1, 2] initial_stats 440 0.5 0.8)) = Some 100
   \<and> map_option energyScore (scores_of
     (calculateScoringMetrics (Some demo_ref) True 0 [1, 2] initial_stats 440 0.5 0.8)) = Some 100
   \<and> (70::real) \<noteq> 0.7 * 100 + 0.3 * 100"
  by (simp add: scorer_defs)

subsection \<open>The pitch score\<close>

text \<open>
  Claim C2, as amended. For every frame that gets the full return and in which the detected f0
  and the reference pitch at the frame's index are both positive, the pitch score is linear in
  the relative frequency error: 100 times \<open>max 0 (1 - 2 |f0 - ref| / ref)\<close>. An error of
  exactly zero scores 100, an error of half the reference frequency or more scores 0, and the
  score lies between 0 and 100. There are no cents steps and no octave rule.
\<close>

theorem C2_pitch_score_is_linear:
  assumes "calculateScoringMetrics (Some rd) en t bs st f0 e c = Inr (Full p c' e' m)"
    and "refPitchHz rd = Some ref" and "js_index ref (frame_index rd t) = Some r"
    and "0 < f0" and "0 < r"
  shows "pitchScore m = max 0 (1 - \<bar>f0 - r\<bar> / r * 2) * 100
         \<and> (f0 = r \<longrightarrow> pitchScore m = 100)
         \<and> (\<bar>f0 - r\<bar> * 2 \<ge> r \<longrightarrow> pitchScore m = 0)
         \<and> 0 \<le> pitchScore m \<and> pitchScore m \<le> 100"
proof -
  from full_fields [OF assms(1)] assms(2)
  have m: "pitchScore m = pitch_scoring ref (frame_index rd t) f0 * 100" by auto
  have f: "pitch_scoring ref (frame_index rd t) f0 = max 0 (1 - \<bar>f0 - r\<bar> / r * 2)"
    by (rule pitch_scoring_formula [OF assms(3-5)])
  define x where "x = \<bar>f0 - r\<bar> / r * 2"
  have x0: "0 \<le> x" using assms(5) by (simp add: x_def)
  have val: "pitchScore m = max 0 (1 - x) * 100" using m f by (simp add: x_def)
  have same: "f0 = r \<Longrightarrow> x = 0" by (simp add: x_def)
  have far: "\<bar>f0 - r\<bar> * 2 \<ge> r \<Longrightarrow> 1 \<le> x"
    using assms(5) by (simp add: x_def field_simps)
  have c1: "pitchScore m = max 0 (1 - \<bar>f0 - r\<bar> / r * 2) * 100" using val by (simp add: x_def)
  have c2: "f0 = r \<longrightarrow> pitchScore m = 100" using val same by auto
  have c3: "\<bar>f0 - r\<bar> * 2 \<ge> r \<longrightarrow> pitchScore m = 0" using val far by (auto simp: max_def)
  have c4: "0 \<le> pitchScore m" using val by (simp add: max_def)
  have c5: "pitchScore m \<le> 100" using val x0 by (simp add: max_def)
  from c1 c2 c3 c4 c5 show ?thesis by blast
qed

theorem C2_pitch_score_is_linear_witness:
  "pitchScore \<lparr>pitchScore = 100, rhythmScore = 0, energyScore = 100, totalScore = 70,
     onBeat = False, timingErr = 0, combo = 0\<rparr>
   = max 0 (1 - \<bar>440 - 440\<bar> / 440 * 2) * (100::real)"
  using C2_pitch_score_is_linear [OF demo_frame_unison, of "[440]" 440]
  by (simp add: demo_ref_def frame_index_def js_or_def js_index_def)

text \<open>
  The claim as written fails one octave up: 880 Hz against a reference of 440 Hz is a cents
  error of exactly 1200, which the octave rule forgives, so the claim asks for the score of a
  zero error; the scorer gives 0, while it gives 100 to 440 Hz.
\<close>

theorem C2_octave_counterexample:
  "spec_cents 880 440 = 1200 \<and> spec_octave_forgiven (spec_cents 880 440)
   \<and> map_option pitchScore (scores_of
       (calculateScoringMetrics (Some demo_ref) True 0 [1, 2] initial_stats 880 0.5 0.8)) = Some 0
   \<and> map_option pitchScore (scores_of
       (calculateScoringMetrics (Some demo_ref) True 0 [1, 2] initial_stats 440 0.5 0.8)) = Some 100"
  by (simp add: scorer_defs spec_cents_def spec_octave_forgiven_def)

subsection \<open>The on-beat flag\<close>

text \<open>
  Claim C4. For every frame that \<^verbatim>\<open>calculateScoringMetrics\<close> scores, the returned on-beat
  flag is false, because the test needs a beat position that is at least 0.8 and at most 0.2;
  so the combo counter it computes is 0 on every frame. The early return carries neither
  property, so no return at all has a true flag or a positive counter.
\<close>

theorem C4_onBeat_always_false:
  "(calculateScoringMetrics rd en t bs st f0 e c = Inr (Full p c' e' m) \<longrightarrow>
      onBeat m = False \<and> combo m = 0)
   \<and> map_option onBeat (scores_of (calculateScoringMetrics rd en t bs st f0 e c)) \<noteq> Some True
   \<and> map_option combo (scores_of (calculateScoringMetrics rd en t bs st f0 e c)) \<noteq> Some (Suc k)
   \<and> \<not> (1 - 0.2 \<le> beatPosition \<and> beatPosition \<le> (0.2::real))"
proof -
  have a: "calculateScoringMetrics rd en t bs st f0 e c = Inr (Full p c' e' m) \<longrightarrow>
      onBeat m = False \<and> combo m = 0" for p c' e' m
  proof
    assume h: "calculateScoringMetrics rd en t bs st f0 e c = Inr (Full p c' e' m)"
    from full_fields [OF h] show "onBeat m = False \<and> combo m = 0"
      by (auto simp: rhythm_scoring_onBeat next_combo_def)
  qed
  have b: "map_option onBeat (scores_of (calculateScoringMetrics rd en t bs st f0 e c)) \<noteq> Some True"
    using a by (auto simp: scores_of_def split: sum.splits newStats.splits)
  have c: "map_option combo (scores_of (calculateScoringMetrics rd en t bs st f0 e c)) \<noteq> Some (Suc k)"
    using a by (auto simp: scores_of_def split: sum.splits newStats.splits)
  have d: "\<not> (1 - 0.2 \<le> beatPosition \<and> beatPosition \<le> (0.2::real))" by simp
  from a b c d show ?thesis by blast
qed

theorem C4_onBeat_always_false_witness:
  "onBeat \<lparr>pitchScore = 0, rhythmScore = 20, energyScore = 100, totalScore = 15,
     onBeat = False, timingErr = 40, combo = 0\<rparr> = False
   \<and> combo \<lparr>pitchScore = 0, rhythmScore = 20, energyScore = 100, totalScore = 15,
     onBeat = False, timingErr = 40, combo = 0\<rparr> = 0"
  using C4_onBeat_always_false [where rd = "Some demo_ref" and en = True and t = "1.9"
      and bs = "[1, 2]" and st = initial_stats and ?f0.0 = 0 and e = "0.5" and c = "0.8"
      and p = 0 and c' = "0.8" and e' = "0.5"
      and m = "\<lparr>pitchScore = 0, rhythmScore = 20, energyScore = 100, totalScore = 15,
                onBeat = False, timingErr = 40, combo = 0\<rparr>"]
    demo_frame_late
  by simp

subsection \<open>The energy score\<close>

text \<open>
  Claim C5, as amended. For every frame that gets the full return, the energy score is the
  detected RMS energy divided by the fixed level 0.5, capped at 1, times 100: it is a function
  of the detected energy alone (no reference loudness, no frame time, no dB window), and it is
  100 whenever the detected energy is 0.5 or more, however loud.
\<close>

theorem C5_energy_score_is_capped_ratio:
  assumes "calculateScoringMetrics rd en t bs st f0 e c = Inr (Full p c' e' m)"
  shows "energyScore m = min (e / 0.5) 1 * 100 \<and> energyScore m \<le> 100
         \<and> (e \<ge> 0.5 \<longrightarrow> energyScore m = 100)"
  using full_fields [OF assms] by (auto simp: energy_scoring_def min_def)

theorem C5_energy_score_is_capped_ratio_witness:
  "energyScore \<lparr>pitchScore = 100, rhythmScore = 0, energyScore = 100, totalScore = 70,
     onBeat = False, timingErr = 0, combo = 0\<rparr> = min (50 / 0.5) 1 * (100::real)
   \<and> (50::real) \<ge> 0.5"
  using C5_energy_score_is_capped_ratio [OF demo_frame_shout] by simp

text \<open>
  The claim as written fails where the reference holds nothing to compare with: against a
  reference without a single frame, a detected energy of 0.5 still gets the full energy score
  and 0.25 gets half of it, the same scores as against the demo reference at another time.
\<close>

theorem C5_no_reference_counterexample:
  "map_option energyScore (scores_of
     (calculateScoringMetrics (Some empty_ref) True 0 [] initial_stats 440 0.5 0.8)) = Some 100
   \<and> map_option energyScore (scores_of
     (calculateScoringMetrics (Some empty_ref) True 0 [] initial_stats 440 0.25 0.8)) = Some 50
   \<and> map_option energyScore (scores_of
     (calculateScoringMetrics (Some demo_ref) True 1.5 [1, 2] initial_stats 440 0.5 0.8)) = Some 100
   \<and> map_option energyScore (scores_of
     (calculateScoringMetrics (Some demo_ref) True 1.5 [1, 2] initial_stats 440 0.25 0.8)) = Some 50"
  by (simp add: scorer_defs empty_ref_def)

subsection \<open>The combo streak\<close>

lemmas session_defs = run_def step_def handleAudioData_def stopSession_def stopSession_of_def
  startSession_def merge_stats_def initial_hud_def calculateFinalResults_def











subsection \<open>Frames after the stop\<close>

text \<open>
  Claim C6: after a session is stopped, no frame that arrives later is appended to the trace.
  The code does not keep this, since the handler of worklet messages does not look at the
  session flags: after start, one frame and stop, the recording flag is off and the trace holds
  that frame, and a frame arriving then is appended all the same.
\<close>

theorem C6_frame_after_stop_is_recorded:
  "isRecording (run (Some demo_ref) initial_hud
      [ReferenceEffect, Click, PortMessage (FrameMsg 440 0.5 0.8), Click]) = False
   \<and> map frame_f0 (sessionData (run (Some demo_ref) initial_hud
      [ReferenceEffect, Click, PortMessage (FrameMsg 440 0.5 0.8), Click])) = [440]
   \<and> map frame_f0 (sessionData (run (Some demo_ref) initial_hud
      [ReferenceEffect, Click, PortMessage (FrameMsg 440 0.5 0.8), Click,
       PortMessage (FrameMsg 220 0.1 0.8)])) = [440, 220]"
  by (simp add: session_defs scorer_defs)

subsection \<open>The final results\<close>







section \<open>Properties of the upload form\<close>

text \<open>
  Claim C10. A selected file whose type is not one of the four allowed ones, or whose size
  exceeds 50 * 1024 * 1024 bytes, is rejected with an alert and nothing else: no request is
  made and no state is set, so the upload state is as before.
\<close>

theorem C10_rejected_file_has_no_request:
  assumes "file_type f \<notin> set allowedTypes \<or> file_size f > 50 * 1024 * 1024"
  shows "(\<exists>msg. handleFileSelect outcome (Some f) = [Alert msg])
         \<and> \<not> list_ex is_request (handleFileSelect outcome (Some f))
         \<and> \<not> list_ex is_state_update (handleFileSelect outcome (Some f))
         \<and> foldl apply_effect s (handleFileSelect outcome (Some f)) = s"
  using assms by (auto simp: handleFileSelect_def is_request_def is_state_update_def)

theorem C10_rejected_file_has_no_request_witness:
  "handleFileSelect NetworkFailure (Some \<lparr>file_type = ''audio/ogg'', file_size = 1000\<rparr>)
     = [Alert ''Please select an MP3 or WAV file.'']
   \<and> handleFileSelect NetworkFailure (Some \<lparr>file_type = ''audio/wav'', file_size = 52428801\<rparr>)
     = [Alert ''File too large. Please select a file under 50MB.'']"
  using C10_rejected_file_has_no_request [where f = "\<lparr>file_type = ''audio/ogg'', file_size = 1000\<rparr>"
      and outcome = NetworkFailure and s = "\<lparr>isUploading = False, uploadProgress = 0\<rparr>"]
    C10_rejected_file_has_no_request [where f = "\<lparr>file_type = ''audio/wav'', file_size = 52428801\<rparr>"
      and outcome = NetworkFailure and s = "\<lparr>isUploading = False, uploadProgress = 0\<rparr>"]
  by (simp add: handleFileSelect_def allowedTypes_def)

text \<open>A file that passes both checks is handed to the upload, which makes the request.\<close>

lemma accepted_file_is_requested:
  assumes "file_type f \<in> set allowedTypes" "file_size f \<le> 50 * 1024 * 1024"
  shows "handleFileSelect outcome (Some f) = uploadFile outcome f"
    and "list_ex is_request (handleFileSelect outcome (Some f))"
  using assms by (auto simp: handleFileSelect_def uploadFile_def is_request_def)


section \<open>Properties of the worklet processor\<close>

text \<open>
  The lag loop keeps the first lag with the largest positive sum, or nothing when no sum is
  positive.
\<close>

lemma lag_fold:
  "case fold (lag_step b) [m..<n] (0, -1) of (best, bl) \<Rightarrow>
     (bl = -1 \<and> best = 0 \<and> (\<forall>l. m \<le> l \<and> l < n \<longrightarrow> acf_sum b l \<le> 0))
     \<or> (\<exists>l. bl = int l \<and> m \<le> l \<and> l < n \<and> best = acf_sum b l \<and> 0 < best
           \<and> (\<forall>l'. m \<le> l' \<and> l' < n \<longrightarrow> acf_sum b l' \<le> best))"
proof (induction n)
  case 0
  show ?case by simp
next
  case (Suc n)
  show ?case
  proof (cases "m \<le> n")
    case False
    then show ?thesis by simp
  next
    case True
    obtain best bl where f: "fold (lag_step b) [m..<n] (0, -1) = (best, bl)"
      by (cases "fold (lag_step b) [m..<n] (0, -1)")
    have step: "fold (lag_step b) [m..<Suc n] (0, -1) = lag_step b n (best, bl)"
      using True f by simp
    from Suc.IH f have ih:
      "(bl = -1 \<and> best = 0 \<and> (\<forall>l. m \<le> l \<and> l < n \<longrightarrow> acf_sum b l \<le> 0))
       \<or> (\<exists>l. bl = int l \<and> m \<le> l \<and> l < n \<and> best = acf_sum b l \<and> 0 < best
           \<and> (\<forall>l'. m \<le> l' \<and> l' < n \<longrightarrow> acf_sum b l' \<le> best))"
      by simp
    show ?thesis
    proof (cases "acf_sum b n > best")
      case gt: True
      have r: "lag_step b n (best, bl) = (acf_sum b n, int n)"
        using gt by (simp add: lag_step_def)
      have pos: "0 < acf_sum b n" using ih gt by auto
      have all: "\<forall>l'. m \<le> l' \<and> l' < Suc n \<longrightarrow> acf_sum b l' \<le> acf_sum b n"
        using ih gt by (auto simp: less_Suc_eq)
      show ?thesis unfolding step r using True pos all by auto
    next
      case le: False
      have r: "lag_step b n (best, bl) = (best, bl)"
        using le by (simp add: lag_step_def)
      show ?thesis unfolding step r using ih le by (auto simp: less_Suc_eq)
    qed
  qed
qed


lemma lag_search_cases:
  "(snd (lag_search b sr) = -1
       \<and> (\<forall>l. nat \<lfloor>sr / 1000\<rfloor> \<le> l \<and> l < nat \<lfloor>sr / 60\<rfloor> \<longrightarrow> acf_sum b l \<le> 0))
   \<or> (\<exists>l. snd (lag_search b sr) = int l \<and> nat \<lfloor>sr / 1000\<rfloor> \<le> l \<and> l < nat \<lfloor>sr / 60\<rfloor>
         \<and> 0 < acf_sum b l
         \<and> (\<forall>l'. nat \<lfloor>sr / 1000\<rfloor> \<le> l' \<and> l' < nat \<lfloor>sr / 60\<rfloor> \<longrightarrow> acf_sum b l' \<le> acf_sum b l))"
  using lag_fold [where b = b and m = "nat \<lfloor>sr / 1000\<rfloor>" and n = "nat \<lfloor>sr / 60\<rfloor>"]
  by (auto simp: lag_search_def Let_def split: prod.splits)

lemma lag_bounds:
  assumes "1000 < sr" "nat \<lfloor>sr / 1000\<rfloor> \<le> l" "l < nat \<lfloor>sr / 60\<rfloor>"
  shows "0 < l" and "60 < sr / real l" and "sr / real l * (sr - 1000) < 1000 * sr"
proof -
  have "1 \<le> \<lfloor>sr / 1000\<rfloor>" using assms(1) by (simp add: le_floor_iff)
  then show pos: "0 < l" using assms(2) by linarith
  have "int l + 1 \<le> \<lfloor>sr / 60\<rfloor>" using assms(3) by linarith
  then have "real_of_int (int l + 1) \<le> sr / 60" by (simp only: le_floor_iff)
  then have up: "60 * (real l + 1) \<le> sr" by simp
  have rl: "0 < real l" using pos by simp
  have "60 * real l < sr" using up by simp
  then show "60 < sr / real l" using rl by (simp add: pos_less_divide_eq)
  have "\<lfloor>sr / 1000\<rfloor> \<le> int l" using assms(2) by linarith
  then have "sr / 1000 < real_of_int (int l) + 1" by (simp only: floor_le_iff)
  then have lo: "sr - 1000 < 1000 * real l" by simp
  have srpos: "0 < sr" using assms(1) by simp
  have "sr * (sr - 1000) < sr * (1000 * real l)"
    using lo srpos by (simp only: mult_less_cancel_left_pos)
  then have "sr * (sr - 1000) / real l < 1000 * sr"
    using rl by (simp add: pos_divide_less_eq mult_ac)
  then show "sr / real l * (sr - 1000) < 1000 * sr" by (simp add: mult_ac)
qed

lemma vocal_range_bound:
  assumes "8000 \<le> (sr::real)" "f * (sr - 1000) < 1000 * sr"
  shows "f < 1143" and "44100 \<le> sr \<Longrightarrow> f < 1024"
proof -
  have d: "0 < sr - 1000" using assms(1) by simp
  have f: "f < 1000 * sr / (sr - 1000)" using assms(2) d by (simp add: pos_less_divide_eq)
  have "1000 * sr \<le> 1143 * (sr - 1000)" using assms(1) by simp
  then have "1000 * sr / (sr - 1000) \<le> 1143" using d by (simp add: pos_divide_le_eq)
  then show "f < 1143" using f by simp
  assume "44100 \<le> sr"
  then have "1000 * sr \<le> 1024 * (sr - 1000)" by simp
  then have "1000 * sr / (sr - 1000) \<le> 1024" using d by (simp add: pos_divide_le_eq)
  then show "f < 1024" using f by simp
qed

lemma acf_sum_zero_lag: "acf_sum b 0 = (\<Sum>x\<leftarrow>b. x * x)"
proof -
  have "map (\<lambda>i. b ! i * b ! i) [0..<length b] = map (\<lambda>x. x * x) b"
    by (rule nth_equalityI) simp_all
  then show ?thesis by (simp add: acf_sum_def)
qed

lemma sum_list_all_zero:
  assumes "\<forall>x \<in> set xs. f x = (0::real)"
  shows "(\<Sum>x\<leftarrow>xs. f x) = 0"
  using assms by (induction xs) auto

lemma energy_positive:
  assumes "0 < acf_sum b l"
  shows "0 < acf_sum b 0"
proof (rule ccontr)
  assume n: "\<not> 0 < acf_sum b 0"
  have nn: "0 \<le> acf_sum b 0"
    unfolding acf_sum_zero_lag by (rule sum_list_nonneg) auto
  from n nn have z: "(\<Sum>x\<leftarrow>b. x * x) = 0" by (simp add: acf_sum_zero_lag)
  have sq: "\<And>y. y \<in> set (map (\<lambda>x. x * x) b) \<Longrightarrow> 0 \<le> y" by auto
  have "\<forall>y \<in> set (map (\<lambda>x. x * x) b). y = 0"
    using z sum_list_nonneg_eq_0_iff [OF sq] by blast
  then have all0: "\<forall>x \<in> set b. x = 0" by auto
  have "acf_sum b l = 0"
    unfolding acf_sum_def
  proof (rule sum_list_all_zero, rule ballI)
    fix i assume "i \<in> set [0..<length b - l]"
    then have "i < length b" by simp
    then have "b ! i = 0" using all0 by simp
    then show "b ! i * b ! (i + l) = 0" by simp
  qed
  with assms show False by simp
qed

lemma normalized_order:
  assumes "0 < acf_sum b l"
  shows "0 < normalized_acf b l"
    and "acf_sum b l' \<le> acf_sum b l \<Longrightarrow> normalized_acf b l' \<le> normalized_acf b l"
  using energy_positive [OF assms] assms
  by (simp_all add: normalized_acf_def divide_right_mono)

lemma estimatePitch_cases:
  assumes "1000 < sr"
  shows "(estimatePitch b sr = 0
          \<and> (\<forall>l. nat \<lfloor>sr / 1000\<rfloor> \<le> l \<and> l < nat \<lfloor>sr / 60\<rfloor> \<longrightarrow> acf_sum b l \<le> 0))
       \<or> (\<exists>l. nat \<lfloor>sr / 1000\<rfloor> \<le> l \<and> l < nat \<lfloor>sr / 60\<rfloor> \<and> 0 < l
             \<and> estimatePitch b sr = sr / real l \<and> 0 < acf_sum b l
             \<and> (\<forall>l'. nat \<lfloor>sr / 1000\<rfloor> \<le> l' \<and> l' < nat \<lfloor>sr / 60\<rfloor> \<longrightarrow> acf_sum b l' \<le> acf_sum b l))"
  using lag_search_cases [of b sr]
proof (elim disjE exE conjE)
  assume "snd (lag_search b sr) = - 1"
    and "\<forall>l. nat \<lfloor>sr / 1000\<rfloor> \<le> l \<and> l < nat \<lfloor>sr / 60\<rfloor> \<longrightarrow> acf_sum b l \<le> 0"
  then show ?thesis by (simp add: estimatePitch_def)
next
  fix l
  assume l: "snd (lag_search b sr) = int l" "nat \<lfloor>sr / 1000\<rfloor> \<le> l" "l < nat \<lfloor>sr / 60\<rfloor>"
    "0 < acf_sum b l"
    "\<forall>l'. nat \<lfloor>sr / 1000\<rfloor> \<le> l' \<and> l' < nat \<lfloor>sr / 60\<rfloor> \<longrightarrow> acf_sum b l' \<le> acf_sum b l"
  have pos: "0 < l" by (rule lag_bounds(1) [OF assms l(2) l(3)])
  have "estimatePitch b sr = sr / real l" using l(1) pos by (simp add: estimatePitch_def)
  with l pos show ?thesis by blast
qed


lemma frame_message_fields:
  "msg_f0 (frame_message b sr) = estimatePitch b sr"
  "msg_confidence (frame_message b sr) = (if estimatePitch b sr > 0 then 0.8 else 0.2)"
  by (simp_all add: frame_message_def Let_def)

lemma process_channel_messages:
  assumes "m \<in> set (fst (process_channel sr ch p))"
  shows "\<exists>b. m = frame_message b sr"
  using assms
proof (induction ch arbitrary: p)
  case Nil
  then show ?case by simp
next
  case (Cons x ch)
  let ?b = "(buf p)[idx p := x]"
  show ?case
  proof (cases "idx p + 1 \<ge> length ?b")
    case True
    have "fst (process_channel sr (x # ch) p)
            = frame_message ?b sr # fst (process_channel sr ch \<lparr>buf = ?b, idx = 0\<rparr>)"
      using True by (simp add: Let_def split: prod.splits)
    with Cons.prems have "m = frame_message ?b sr
        \<or> m \<in> set (fst (process_channel sr ch \<lparr>buf = ?b, idx = 0\<rparr>))" by simp
    then show ?thesis using Cons.IH by blast
  next
    case False
    have "process_channel sr (x # ch) p = process_channel sr ch \<lparr>buf = ?b, idx = idx p + 1\<rparr>"
      using False by (simp add: Let_def)
    with Cons.prems show ?thesis using Cons.IH by simp
  qed
qed

lemma process_messages:
  assumes "m \<in> set (fst (process sr inputs p))"
  shows "\<exists>b. m = frame_message b sr"
  using assms process_channel_messages
  by (auto simp: process_def split: list.splits)

text \<open>
  Claim C7. At a sample rate of at least 8000 Hz (the lowest rate an audio context has to
  support), for every analysis buffer the detector returns either 0, reported with confidence
  0.2 and exactly when no lag of the search range has a positive autocorrelation sum, or the
  rate divided by a lag of the range whose normalised autocorrelation is positive (the floor is
  0) and largest over the range. In the second case the pitch lies above 60 Hz and below
  1143 Hz (below 1024 Hz from 44100 Hz on; the upper end is the rate divided by the rate's
  whole number of thousands) and the confidence is 0.8. Every message that \<^verbatim>\<open>process\<close>
  posts for a full buffer is of one of the two kinds. The code compares raw sums; dividing by
  the zero-lag sum, positive whenever some sum is, keeps their order and sign.
\<close>

theorem C7_pitch_is_zero_or_in_vocal_range:
  assumes "8000 \<le> sr"
  shows "((estimatePitch b sr = 0 \<and> msg_confidence (frame_message b sr) = 0.2
           \<and> (\<forall>lag. nat \<lfloor>sr / 1000\<rfloor> \<le> lag \<and> lag < nat \<lfloor>sr / 60\<rfloor> \<longrightarrow> acf_sum b lag \<le> 0))
          \<or> (\<exists>lag. nat \<lfloor>sr / 1000\<rfloor> \<le> lag \<and> lag < nat \<lfloor>sr / 60\<rfloor>
                \<and> estimatePitch b sr = sr / real lag
                \<and> 0 < normalized_acf b lag
                \<and> (\<forall>lag'. nat \<lfloor>sr / 1000\<rfloor> \<le> lag' \<and> lag' < nat \<lfloor>sr / 60\<rfloor>
                      \<longrightarrow> normalized_acf b lag' \<le> normalized_acf b lag)
                \<and> 60 < estimatePitch b sr \<and> estimatePitch b sr < 1143
                \<and> (44100 \<le> sr \<longrightarrow> estimatePitch b sr < 1024)
                \<and> msg_confidence (frame_message b sr) = 0.8))
         \<and> (\<forall>m \<in> set (fst (process sr inputs p)).
               (msg_f0 m = 0 \<and> msg_confidence m = 0.2)
               \<or> (60 < msg_f0 m \<and> msg_f0 m < 1143 \<and> msg_confidence m = 0.8))"
proof -
  have sr: "1000 < sr" using assms by simp
  have buffer: "(estimatePitch b sr = 0 \<and> msg_confidence (frame_message b sr) = 0.2
           \<and> (\<forall>lag. nat \<lfloor>sr / 1000\<rfloor> \<le> lag \<and> lag < nat \<lfloor>sr / 60\<rfloor> \<longrightarrow> acf_sum b lag \<le> 0))
          \<or> (\<exists>lag. nat \<lfloor>sr / 1000\<rfloor> \<le> lag \<and> lag < nat \<lfloor>sr / 60\<rfloor>
                \<and> estimatePitch b sr = sr / real lag
                \<and> 0 < normalized_acf b lag
                \<and> (\<forall>lag'. nat \<lfloor>sr / 1000\<rfloor> \<le> lag' \<and> lag' < nat \<lfloor>sr / 60\<rfloor>
                      \<longrightarrow> normalized_acf b lag' \<le> normalized_acf b lag)
                \<and> 60 < estimatePitch b sr \<and> estimatePitch b sr < 1143
                \<and> (44100 \<le> sr \<longrightarrow> estimatePitch b sr < 1024)
                \<and> msg_confidence (frame_message b sr) = 0.8)" for b
    using estimatePitch_cases [OF sr, of b]
  proof (elim disjE exE conjE)
    assume "estimatePitch b sr = 0"
      and "\<forall>l. nat \<lfloor>sr / 1000\<rfloor> \<le> l \<and> l < nat \<lfloor>sr / 60\<rfloor> \<longrightarrow> acf_sum b l \<le> 0"
    then show ?thesis by (simp add: frame_message_fields)
  next
    fix l
    assume l: "nat \<lfloor>sr / 1000\<rfloor> \<le> l" "l < nat \<lfloor>sr / 60\<rfloor>" "0 < l"
      "estimatePitch b sr = sr / real l" "0 < acf_sum b l"
      "\<forall>l'. nat \<lfloor>sr / 1000\<rfloor> \<le> l' \<and> l' < nat \<lfloor>sr / 60\<rfloor> \<longrightarrow> acf_sum b l' \<le> acf_sum b l"
    note bd = lag_bounds [OF sr l(1) l(2)]
    have lo: "60 < estimatePitch b sr" using bd(2) l(4) by simp
    have hi0: "estimatePitch b sr * (sr - 1000) < 1000 * sr" using bd(3) l(4) by simp
    note hi = vocal_range_bound [OF assms hi0]
    have conf: "msg_confidence (frame_message b sr) = 0.8"
      using lo by (simp add: frame_message_fields)
    have n1: "0 < normalized_acf b l" by (rule normalized_order(1) [OF l(5)])
    have n2: "\<forall>lag'. nat \<lfloor>sr / 1000\<rfloor> \<le> lag' \<and> lag' < nat \<lfloor>sr / 60\<rfloor>
                  \<longrightarrow> normalized_acf b lag' \<le> normalized_acf b l"
      using l(6) normalized_order(2) [OF l(5)] by blast
    from l(1) l(2) l(4) n1 n2 lo hi conf show ?thesis by blast
  qed
  have msgs: "\<forall>m \<in> set (fst (process sr inputs p)).
               (msg_f0 m = 0 \<and> msg_confidence m = 0.2)
               \<or> (60 < msg_f0 m \<and> msg_f0 m < 1143 \<and> msg_confidence m = 0.8)"
  proof
    fix m assume "m \<in> set (fst (process sr inputs p))"
    then obtain b' where m: "m = frame_message b' sr" using process_messages by blast
    from buffer [of b'] show "(msg_f0 m = 0 \<and> msg_confidence m = 0.2)
               \<or> (60 < msg_f0 m \<and> msg_f0 m < 1143 \<and> msg_confidence m = 0.8)"
      unfolding m frame_message_fields(1) by auto
  qed
  from buffer [of b] msgs show ?thesis by blast
qed

lemma pulse_pitch: "estimatePitch pulse_buffer 8000 = 800"
  by code_simp

theorem C7_pitch_is_zero_or_in_vocal_range_witness:
  "(8000::real) \<le> 8000 \<and> estimatePitch pulse_buffer 8000 = 800
   \<and> (\<exists>lag. nat \<lfloor>8000 / 1000 :: real\<rfloor> \<le> lag \<and> lag < nat \<lfloor>8000 / 60 :: real\<rfloor>
         \<and> estimatePitch pulse_buffer 8000 = 8000 / real lag
         \<and> 0 < normalized_acf pulse_buffer lag
         \<and> (\<forall>lag'. nat \<lfloor>8000 / 1000 :: real\<rfloor> \<le> lag' \<and> lag' < nat \<lfloor>8000 / 60 :: real\<rfloor>
               \<longrightarrow> normalized_acf pulse_buffer lag' \<le> normalized_acf pulse_buffer lag))"
proof -
  have h: "(8000::real) \<le> 8000" by simp
  from C7_pitch_is_zero_or_in_vocal_range [OF h, of pulse_buffer "[]" new_processor]
  show ?thesis using pulse_pitch by auto
qed

section \<open>Properties of the echo canceller\<close>

lemma dot_zero_right:
  assumes "\<forall>x \<in> set xs. x = 0"
  shows "dot ws xs = 0"
  using assms
proof (induction xs arbitrary: ws)
  case Nil
  show ?case by (simp add: dot_def)
next
  case (Cons x xs)
  then show ?case by (cases ws) (auto simp: dot_def)
qed

lemma zero_window:
  assumes "\<forall>x \<in> set hs. x = (0::real)"
  shows "\<forall>x \<in> set (take L (0 # hs)). x = 0"
proof -
  have "set (take L (0 # hs)) \<subseteq> set (0 # hs)" by (rule set_take_subset)
  then show ?thesis using assms by auto
qed

lemma weights_kept:
  assumes "\<forall>x \<in> set xs. x = (0::real)" "length ws \<le> length xs"
  shows "map (\<lambda>(w, x). w + k * x / d) (zip ws xs) = ws"
  using assms
proof (induction ws arbitrary: xs)
  case Nil
  show ?case by simp
next
  case (Cons w ws)
  then show ?case by (cases xs) auto
qed

lemma nlms_step_zero_reference:
  assumes "0 < epsilon" "\<forall>x \<in> set (history c). x = 0" "length (history c) = length (weights c)"
  shows "nlms_step step_size epsilon c (0, mic) =
           Some (mic, \<lparr>weights = weights c, history = take (length (weights c)) (0 # history c)\<rparr>)"
proof -
  let ?w = "take (length (weights c)) (0 # history c)"
  have z: "\<forall>x \<in> set ?w. x = 0" by (rule zero_window [OF assms(2)])
  have len: "length (weights c) \<le> length ?w" using assms(3) by simp
  have p: "dot (weights c) ?w = 0" by (rule dot_zero_right [OF z])
  have q: "dot ?w ?w = 0" by (rule dot_zero_right [OF z])
  have k: "map (\<lambda>(w, x). w + step_size * mic * x / epsilon) (zip (weights c) ?w) = weights c"
    using weights_kept [OF z len, of "step_size * mic" epsilon] by simp
  show ?thesis using assms(1) p q k by (simp add: nlms_step_def Let_def)
qed

text \<open>
  Claim C8. With a positive epsilon, a filter whose reference history is all zero (as after a
  reset) and an all-zero reference signal, the canceller never divides by zero, outputs every
  microphone sequence unchanged and leaves every weight as it was.
\<close>

theorem C8_zero_reference_passes_mic_through:
  assumes "0 < epsilon" and "\<forall>x \<in> set (history c). x = 0"
    and "length (history c) = length (weights c)"
  shows "\<exists>c'. nlms_run step_size epsilon c (map (\<lambda>mic. (0, mic)) mics) = Some (mics, c')
              \<and> weights c' = weights c"
  using assms(2,3)
proof (induction mics arbitrary: c)
  case Nil
  show ?case by simp
next
  case (Cons mic mics)
  let ?c1 = "\<lparr>weights = weights c, history = take (length (weights c)) (0 # history c)\<rparr>"
  have s: "nlms_step step_size epsilon c (0, mic) = Some (mic, ?c1)"
    by (rule nlms_step_zero_reference [OF assms(1) Cons.prems])
  have h1: "\<forall>x \<in> set (history ?c1). x = 0"
    using zero_window [OF Cons.prems(1)] by simp
  have h2: "length (history ?c1) = length (weights ?c1)"
    using Cons.prems(2) by simp
  from Cons.IH [OF h1 h2] obtain c' where
    r: "nlms_run step_size epsilon ?c1 (map (\<lambda>mic. (0, mic)) mics) = Some (mics, c')"
    and w: "weights c' = weights c" by auto
  show ?case using s r w by simp
qed

theorem C8_zero_reference_passes_mic_through_witness:
  "\<exists>c'. nlms_run 0.01 0.001 (reset_canceller 3) [(0, 1), (0, 2), (0, -3)] = Some ([1, 2, -3], c')
       \<and> weights c' = [0, 0, 0]"
  using C8_zero_reference_passes_mic_through [where epsilon = "0.001" and c = "reset_canceller 3"
      and step_size = "0.01" and mics = "[1, 2, -3]"]
  by (simp add: reset_canceller_def numeral_eq_Suc)


end
